theory Spec2Isabelle
  imports Main
begin

section \<open>Metadata extraction of AskDB (\<open>src/metadata_extractor.py\<close>)\<close>

text \<open>
  A shallow embedding of the class \<open>DatabaseMetadataExtractor\<close>. The object \<open>self\<close> is
  the record \<open>extractor\<close>; everything outside the object that the methods read or change
  (the cache file, the clock, the database server) is the record \<open>world\<close>. A method is a
  function from the object and the world to its result, the updated object and the updated
  world. A Python exception is a value \<open>Inl e\<close>; \<open>print\<close> is not modelled.
\<close>

subsection \<open>Python values and dictionaries\<close>

datatype py_error =
    AttributeError
  | InterfaceError
  | DatabaseError string
  | KeyError
  | ZeroDivisionError
  | FileNotFoundError
  | UnpicklingError

text \<open>A value of a result row. \<open>PyOpaque\<close> is any other object, named by its \<open>str()\<close>.\<close>

datatype pyval = PyNone | PyBool bool | PyInt int | PyStr string | PyOpaque string

type_synonym row = "(string \<times> pyval) list"

text \<open>
  A \<open>dict\<close> is an association list in insertion order with distinct keys.
  \<open>dict_set d k v\<close> is \<open>d[k] = v\<close>: an existing key keeps its place.
\<close>

fun dict_set :: "('k \<times> 'v) list \<Rightarrow> 'k \<Rightarrow> 'v \<Rightarrow> ('k \<times> 'v) list" where
  "dict_set [] k v = [(k, v)]"
| "dict_set ((k', v') # d) k v =
     (if k' = k then (k, v) # d else (k', v') # dict_set d k v)"

text \<open>\<open>dict_append d k x\<close> is \<open>d[k].append(x)\<close> on a \<open>defaultdict(list)\<close>.\<close>

fun dict_append :: "('k \<times> 'v list) list \<Rightarrow> 'k \<Rightarrow> 'v \<Rightarrow> ('k \<times> 'v list) list" where
  "dict_append [] k x = [(k, [x])]"
| "dict_append ((k', xs) # d) k x =
     (if k' = k then (k', xs @ [x]) # d else (k', xs) # dict_append d k x)"

subsection \<open>The snapshot\<close>

text \<open>
  A float is not evaluated: \<open>PyPct a b\<close> stands for the float that Python computes as
  \<open>round(a / b * 100, 2)\<close> for \<open>b \<noteq> 0\<close>; \<open>PyZero\<close> is the integer \<open>round(0, 2)\<close>.
\<close>

datatype pynum = PyZero | PyPct int int

record table_info =
  ti_table_name :: string
  ti_table_type :: string
  table_comment :: "string option"
  column_count :: int

record view_info =
  view_name :: string
  vi_table_type :: string
  view_comment :: "string option"
  view_definition :: "string option"

record column_meta =
  column_name :: string
  data_type :: string
  character_maximum_length :: "int option"
  numeric_precision :: "int option"
  numeric_scale :: "int option"
  is_nullable :: string
  column_default :: "string option"
  column_comment :: "string option"
  ordinal_position :: int

record foreign_key =
  fk_column_name :: string
  foreign_table_name :: string
  foreign_column_name :: string
  constraint_name :: string
  update_rule :: string
  delete_rule :: string

record index_row =
  ir_index_name :: string
  ir_column_name :: string
  ir_is_unique :: bool
  ir_is_primary :: bool
  ir_index_type :: string

record index_meta =
  index_name :: string
  columns :: "string list"
  is_unique :: bool
  is_primary :: bool
  index_type :: string

record stats_row =
  total_rows :: int
  non_null_count :: int
  sr_distinct_count :: int

datatype column_stats =
    Stats (null_count: int) (null_percentage: pynum)
          (distinct_count: int) (distinct_percentage: pynum)
  | StatsError py_error

record relationship_row =
  from_table :: string
  rr_from_column :: string
  rr_to_table :: string
  rr_to_column :: string

record relationship_edge =
  from_column :: string
  to_table :: string
  to_column :: string

text \<open>An optional key of the dictionary (\<open>column_statistics\<close>, \<open>sample_data\<close>) is an option.\<close>

record table_meta =
  table_type :: string
  comment :: "string option"
  row_count :: int
  table_size :: "string option"
  t_columns :: "column_meta list"
  primary_keys :: "string list"
  foreign_keys :: "foreign_key list"
  indexes :: "index_meta list"
  column_statistics :: "(string \<times> column_stats) list option"
  sample_data :: "row list option"

record view_meta =
  view_type :: string
  v_comment :: "string option"
  v_definition :: "string option"
  v_columns :: "column_meta list"
  v_sample_data :: "row list option"

record snapshot =
  database_name :: "string option"
  extracted_at :: string
  total_tables :: nat
  total_views :: nat
  tables :: "(string \<times> table_meta) list"
  views :: "(string \<times> view_meta) list"
  relationships :: "(string \<times> relationship_edge list) list"

text \<open>\<open>self.metadata\<close> and the value returned by \<open>extract_all_metadata\<close>: the empty
  dictionary \<open>{}\<close>, or a dictionary with the seven keys of a snapshot.\<close>

datatype metadata = EmptyDict | Snapshot snapshot

subsection \<open>The object and the world\<close>

text \<open>Times are microseconds; a \<open>timedelta\<close> is a difference of two times.\<close>

type_synonym datetime = int

text \<open>The attributes \<open>self.conn\<close> and \<open>self.cursor\<close>: not set yet, open, or closed.\<close>

datatype handle = NoAttr | Opened | Closed

record extractor =
  connection_params :: "(string \<times> string) list"
  metadata :: metadata
  cache_file :: string
  cache_ttl :: int
  cursor :: handle

record cache_data =
  cd_metadata :: metadata
  cached_at :: datetime

text \<open>
  The content of a path: no file; a file from which reading a cache entry raises (\<open>open\<close>,
  \<open>pickle.load\<close>, a key lookup or the subtraction of \<open>cached_at\<close> from the clock);
  or the pickled dictionary \<open>{'metadata': m, 'cached_at': t}\<close>.
\<close>

datatype file_content = Missing | Garbage | Pickled cache_data

text \<open>What writing a path does: it succeeds, \<open>open\<close> raises (the file stays as it was), or
  \<open>pickle.dump\<close> raises after \<open>open\<close> has truncated the file.\<close>

datatype write_outcome = WriteOk | OpenFails | DumpFails

text \<open>The answers of the database server to the queries of the class, \<open>Inl\<close> when
  \<open>cursor.execute\<close> raises. A query fetched with \<open>fetchone\<close> answers \<open>None\<close> when
  there is no row; the size of a table is \<open>Some None\<close> when the row holds \<open>NULL\<close>.\<close>

record database =
  q_tables :: "py_error + table_info list"
  q_views :: "py_error + view_info list"
  q_columns :: "string \<Rightarrow> py_error + column_meta list"
  q_primary_keys :: "string \<Rightarrow> py_error + string list"
  q_foreign_keys :: "string \<Rightarrow> py_error + foreign_key list"
  q_indexes :: "string \<Rightarrow> py_error + index_row list"
  q_sample :: "string \<Rightarrow> int \<Rightarrow> py_error + row list"
  q_row_count :: "string \<Rightarrow> py_error + int option"
  q_table_size :: "string \<Rightarrow> py_error + string option option"
  q_column_stats :: "string \<Rightarrow> string \<Rightarrow> py_error + stats_row"
  q_relationships :: "py_error + relationship_row list"

datatype query =
    QTables | QViews | QColumns string | QPrimaryKeys string | QForeignKeys string
  | QIndexes string | QSample string int | QRowCount string | QTableSize string
  | QColumnStats string string | QRelationships

datatype event = Connect | Execute query

record world =
  fs :: "string \<Rightarrow> file_content"
  write_result :: "string \<Rightarrow> write_outcome"
  now :: datetime
  connectable :: bool
  db :: database
  journal :: "event list"

type_synonym 'a io = "world \<Rightarrow> (py_error + 'a) \<times> world"

definition io_return :: "'a \<Rightarrow> 'a io" where
  "io_return x w = (Inr x, w)"

definition io_bind :: "'a io \<Rightarrow> ('a \<Rightarrow> 'b io) \<Rightarrow> 'b io" where
  "io_bind m f w = (case m w of (Inl e, w') \<Rightarrow> (Inl e, w') | (Inr x, w') \<Rightarrow> f x w')"

text \<open>\<open>try: return m  except Exception as e: return h e\<close>\<close>

definition io_try :: "'a io \<Rightarrow> (py_error \<Rightarrow> 'a) \<Rightarrow> 'a io" where
  "io_try m h w = (case m w of (Inl e, w') \<Rightarrow> (Inr (h e), w') | (Inr x, w') \<Rightarrow> (Inr x, w'))"

subsection \<open>Construction, connection, cache\<close>

text \<open>\<open>__init__\<close>: the time-to-live is \<open>timedelta(hours=1)\<close>.\<close>

definition init :: "(string \<times> string) list \<Rightarrow> string \<Rightarrow> extractor" where
  "init params path =
     \<lparr>connection_params = params, metadata = EmptyDict, cache_file = path,
      cache_ttl = 3600000000, cursor = NoAttr\<rparr>"

definition connect :: "extractor \<Rightarrow> world \<Rightarrow> bool \<times> extractor \<times> world" where
  "connect self w =
     (let w' = w\<lparr>journal := journal w @ [Connect]\<rparr>
      in if connectable w then (True, self\<lparr>cursor := Opened\<rparr>, w') else (False, self, w'))"

definition close :: "extractor \<Rightarrow> extractor" where
  "close self = (case cursor self of NoAttr \<Rightarrow> self | _ \<Rightarrow> self\<lparr>cursor := Closed\<rparr>)"

text \<open>\<open>self.cursor.execute(q)\<close> followed by the fetch: the answer of the server to \<open>q\<close>.
  The server answers each query on its own. The state that a psycopg2 connection enters
  after a failed statement, in which every later statement raises, is not part of the
  model: a run of the model is a run of the program up to and including its first failed
  query.\<close>

definition execute :: "extractor \<Rightarrow> query \<Rightarrow> (database \<Rightarrow> py_error + 'a) \<Rightarrow> 'a io" where
  "execute self q answer w =
     (case cursor self of
        NoAttr \<Rightarrow> (Inl AttributeError, w)
      | Closed \<Rightarrow> (Inl InterfaceError, w)
      | Opened \<Rightarrow> (answer (db w), w\<lparr>journal := journal w @ [Execute q]\<rparr>))"

definition save_to_cache :: "extractor \<Rightarrow> world \<Rightarrow> world" where
  "save_to_cache self w =
     (let cache_data = \<lparr>cd_metadata = metadata self, cached_at = now w\<rparr>;
          f = cache_file self
      in case write_result w f of
           WriteOk \<Rightarrow> w\<lparr>fs := (fs w)(f := Pickled cache_data)\<rparr>
         | OpenFails \<Rightarrow> w
         | DumpFails \<Rightarrow> w\<lparr>fs := (fs w)(f := Garbage)\<rparr>)"

text \<open>The body of the \<open>try\<close> of \<open>load_from_cache\<close> up to \<open>cached_at\<close>.\<close>

definition read_cache :: "file_content \<Rightarrow> py_error + cache_data" where
  "read_cache c = (case c of Missing \<Rightarrow> Inl FileNotFoundError
                          | Garbage \<Rightarrow> Inl UnpicklingError
                          | Pickled cd \<Rightarrow> Inr cd)"

definition load_from_cache :: "extractor \<Rightarrow> world \<Rightarrow> bool \<times> extractor" where
  "load_from_cache self w =
     (if fs w (cache_file self) = Missing then (False, self)
      else case read_cache (fs w (cache_file self)) of
             Inl e \<Rightarrow> (False, self)
           | Inr cache_data \<Rightarrow>
               if now w - cached_at cache_data > cache_ttl self then (False, self)
               else (True, self\<lparr>metadata := cd_metadata cache_data\<rparr>))"

definition clear_cache :: "extractor \<Rightarrow> world \<Rightarrow> world" where
  "clear_cache self w =
     (if fs w (cache_file self) \<noteq> Missing
      then w\<lparr>fs := (fs w)(cache_file self := Missing)\<rparr> else w)"

text \<open>Functions of the Python library that the class calls and that are taken as they are:
  \<open>datetime.isoformat\<close>, \<open>json.dumps(row, default=str)\<close>, \<open>str\<close> of the float
  \<open>round(a / b * 100, 2)\<close>, and \<open>str.upper\<close>.\<close>

record pylib =
  isoformat :: "datetime \<Rightarrow> string"
  json_dumps :: "row \<Rightarrow> string"
  str_float :: "int \<Rightarrow> int \<Rightarrow> string"
  upper :: "string \<Rightarrow> string"

definition io_lift :: "py_error + 'a \<Rightarrow> 'a io" where
  "io_lift r w = (r, w)"

subsection \<open>Schema probing\<close>

definition get_tables_info :: "extractor \<Rightarrow> table_info list io" where
  "get_tables_info self = execute self QTables q_tables"

definition get_views_info :: "extractor \<Rightarrow> view_info list io" where
  "get_views_info self = execute self QViews q_views"

definition get_columns_info :: "extractor \<Rightarrow> string \<Rightarrow> column_meta list io" where
  "get_columns_info self table_name =
     execute self (QColumns table_name) (\<lambda>d. q_columns d table_name)"

definition get_primary_keys :: "extractor \<Rightarrow> string \<Rightarrow> string list io" where
  "get_primary_keys self table_name =
     io_try (execute self (QPrimaryKeys table_name) (\<lambda>d. q_primary_keys d table_name))
       (\<lambda>e. [])"

text \<open>No \<open>try\<close> here: what \<open>execute\<close> raises leaves the method.\<close>

definition get_foreign_keys :: "extractor \<Rightarrow> string \<Rightarrow> foreign_key list io" where
  "get_foreign_keys self table_name =
     execute self (QForeignKeys table_name) (\<lambda>d. q_foreign_keys d table_name)"

text \<open>The loop of \<open>get_indexes\<close> that groups the rows by index name.\<close>

fun group_indexes :: "(string \<times> index_meta) list \<Rightarrow> index_row list \<Rightarrow> (string \<times> index_meta) list" where
  "group_indexes idxs [] = idxs"
| "group_indexes idxs (row # rows) =
     (let idx_name = ir_index_name row;
          idxs1 =
            (if map_of idxs idx_name = None
             then dict_set idxs idx_name
                    \<lparr>index_name = idx_name, columns = [], is_unique = ir_is_unique row,
                     is_primary = ir_is_primary row, index_type = ir_index_type row\<rparr>
             else idxs);
          idxs2 =
            map (\<lambda>(k, v). if k = idx_name
                           then (k, v\<lparr>columns := columns v @ [ir_column_name row]\<rparr>)
                           else (k, v)) idxs1
      in group_indexes idxs2 rows)"

definition get_indexes :: "extractor \<Rightarrow> string \<Rightarrow> index_meta list io" where
  "get_indexes self table_name =
     io_try
       (io_bind (execute self (QIndexes table_name) (\<lambda>d. q_indexes d table_name))
          (\<lambda>rows. io_return (map snd (group_indexes [] rows))))
       (\<lambda>e. [])"

definition get_sample_data :: "extractor \<Rightarrow> string \<Rightarrow> int \<Rightarrow> row list io" where
  "get_sample_data self table_name limit =
     io_try (execute self (QSample table_name limit) (\<lambda>d. q_sample d table_name limit))
       (\<lambda>e. [])"

definition get_row_count :: "extractor \<Rightarrow> string \<Rightarrow> int io" where
  "get_row_count self table_name =
     io_try
       (io_bind (execute self (QRowCount table_name) (\<lambda>d. q_row_count d table_name))
          (\<lambda>result. io_return (case result of Some estimate \<Rightarrow> estimate | None \<Rightarrow> 0)))
       (\<lambda>e. 0)"

text \<open>\<open>result['size'] if result else 'Unknown'\<close>: the size of a row that holds \<open>NULL\<close> is
  \<open>None\<close>.\<close>

definition get_table_size :: "extractor \<Rightarrow> string \<Rightarrow> string option io" where
  "get_table_size self table_name =
     io_try
       (io_bind (execute self (QTableSize table_name) (\<lambda>d. q_table_size d table_name))
          (\<lambda>result. io_return (case result of Some sz \<Rightarrow> sz | None \<Rightarrow> Some ''Unknown'')))
       (\<lambda>e. Some ''Unknown'')"

text \<open>\<open>a / b * 100\<close> rounded to two places: Python raises when \<open>b\<close> is zero.\<close>

definition py_pct :: "int \<Rightarrow> int \<Rightarrow> py_error + pynum" where
  "py_pct a b = (if b = 0 then Inl ZeroDivisionError else Inr (PyPct a b))"

text \<open>The dictionary that \<open>get_column_statistics\<close> stores for one column, from the row
  of its query.\<close>

definition column_stats_of :: "stats_row \<Rightarrow> py_error + column_stats" where
  "column_stats_of result =
     (let total = total_rows result;
          non_null = non_null_count result;
          null_count = total - non_null
      in case (if total > 0 then py_pct null_count total else Inr PyZero) of
           Inl e \<Rightarrow> Inl e
         | Inr np \<Rightarrow>
             (case (if total > 0 then py_pct (sr_distinct_count result) total else Inr PyZero) of
                Inl e \<Rightarrow> Inl e
              | Inr dp \<Rightarrow> Inr (Stats null_count np (sr_distinct_count result) dp)))"

text \<open>The \<open>for col in columns\<close> loop of \<open>get_column_statistics\<close>; its body is one
  \<open>try\<close> whose handler stores \<open>{'error': str(e)}\<close>.\<close>

fun column_statistics_loop ::
  "extractor \<Rightarrow> string \<Rightarrow> column_meta list \<Rightarrow> (string \<times> column_stats) list
     \<Rightarrow> (string \<times> column_stats) list io" where
  "column_statistics_loop self table_name [] stats = io_return stats"
| "column_statistics_loop self table_name (col # cols) stats =
     io_bind
       (io_try
          (io_bind
             (execute self (QColumnStats table_name (column_name col))
                (\<lambda>d. q_column_stats d table_name (column_name col)))
             (\<lambda>result. io_lift (column_stats_of result)))
          StatsError)
       (\<lambda>entry. column_statistics_loop self table_name cols
                   (dict_set stats (column_name col) entry))"

definition get_column_statistics :: "extractor \<Rightarrow> string \<Rightarrow> (string \<times> column_stats) list io" where
  "get_column_statistics self table_name =
     io_bind (get_columns_info self table_name)
       (\<lambda>columns. column_statistics_loop self table_name columns [])"

subsection \<open>Relationships\<close>

text \<open>The dictionary appended for one row of the foreign-key query.\<close>

definition edge_of :: "relationship_row \<Rightarrow> relationship_edge" where
  "edge_of row =
     \<lparr>from_column = rr_from_column row, to_table = rr_to_table row,
      to_column = rr_to_column row\<rparr>"

text \<open>The \<open>for row in fetchall()\<close> loop of \<open>get_table_relationships\<close>.\<close>

fun relationships_loop ::
  "(string \<times> relationship_edge list) list \<Rightarrow> relationship_row list
     \<Rightarrow> (string \<times> relationship_edge list) list" where
  "relationships_loop rels [] = rels"
| "relationships_loop rels (row # rows) =
     relationships_loop (dict_append rels (from_table row) (edge_of row)) rows"

definition get_table_relationships :: "extractor \<Rightarrow> (string \<times> relationship_edge list) list io" where
  "get_table_relationships self =
     io_bind (execute self QRelationships q_relationships)
       (\<lambda>rows. io_return (relationships_loop [] rows))"

subsection \<open>Aggregation\<close>

text \<open>The body of the \<open>for table_info in tables\<close> loop up to the store into
  \<open>metadata['tables']\<close>.\<close>

definition process_table ::
  "bool \<Rightarrow> int \<Rightarrow> bool \<Rightarrow> extractor \<Rightarrow> table_info \<Rightarrow> table_meta io" where
  "process_table include_samples sample_rows include_statistics self table_info =
     (let table_name = ti_table_name table_info in
      io_bind (get_columns_info self table_name) (\<lambda>columns.
      io_bind (get_primary_keys self table_name) (\<lambda>primary_keys.
      io_bind (get_foreign_keys self table_name) (\<lambda>foreign_keys.
      io_bind (get_indexes self table_name) (\<lambda>indexes.
      io_bind (get_row_count self table_name) (\<lambda>row_count.
      io_bind (get_table_size self table_name) (\<lambda>table_size.
      io_bind (if include_statistics \<and> row_count > 0
               then io_bind (get_column_statistics self table_name) (\<lambda>s. io_return (Some s))
               else io_return None) (\<lambda>column_statistics.
      io_bind (if include_samples \<and> row_count > 0
               then io_bind (get_sample_data self table_name sample_rows)
                      (\<lambda>s. io_return (Some s))
               else io_return None) (\<lambda>sample_data.
      io_return
        \<lparr>table_type = ti_table_type table_info, comment = table_comment table_info,
         row_count = row_count, table_size = table_size, t_columns = columns,
         primary_keys = primary_keys, foreign_keys = foreign_keys, indexes = indexes,
         column_statistics = column_statistics, sample_data = sample_data\<rparr>)))))))))"

fun process_tables ::
  "bool \<Rightarrow> int \<Rightarrow> bool \<Rightarrow> extractor \<Rightarrow> table_info list \<Rightarrow> (string \<times> table_meta) list
     \<Rightarrow> (string \<times> table_meta) list io" where
  "process_tables include_samples sample_rows include_statistics self [] acc = io_return acc"
| "process_tables include_samples sample_rows include_statistics self (table_info # rest) acc =
     io_bind (process_table include_samples sample_rows include_statistics self table_info)
       (\<lambda>table_metadata.
          process_tables include_samples sample_rows include_statistics self rest
            (dict_set acc (ti_table_name table_info) table_metadata))"

text \<open>The body of the \<open>for view_info in views\<close> loop.\<close>

definition process_view :: "bool \<Rightarrow> int \<Rightarrow> extractor \<Rightarrow> view_info \<Rightarrow> view_meta io" where
  "process_view include_samples sample_rows self view_info =
     (let name = view_name view_info in
      io_bind (get_columns_info self name) (\<lambda>columns.
      io_bind (if include_samples
               then io_bind (get_sample_data self name sample_rows) (\<lambda>s. io_return (Some s))
               else io_return None) (\<lambda>sample_data.
      io_return
        \<lparr>view_type = vi_table_type view_info, v_comment = view_comment view_info,
         v_definition = view_definition view_info, v_columns = columns,
         v_sample_data = sample_data\<rparr>)))"

fun process_views ::
  "bool \<Rightarrow> int \<Rightarrow> extractor \<Rightarrow> view_info list \<Rightarrow> (string \<times> view_meta) list
     \<Rightarrow> (string \<times> view_meta) list io" where
  "process_views include_samples sample_rows self [] acc = io_return acc"
| "process_views include_samples sample_rows self (view_info # rest) acc =
     io_bind (process_view include_samples sample_rows self view_info)
       (\<lambda>view_metadata.
          process_views include_samples sample_rows self rest
            (dict_set acc (view_name view_info) view_metadata))"

text \<open>The \<open>try\<close> block of \<open>extract_all_metadata\<close> up to the finished dictionary.\<close>

definition build_metadata :: "pylib \<Rightarrow> bool \<Rightarrow> int \<Rightarrow> bool \<Rightarrow> extractor \<Rightarrow> snapshot io" where
  "build_metadata lib include_samples sample_rows include_statistics self =
     io_bind (get_tables_info self) (\<lambda>tables.
     io_bind (get_views_info self) (\<lambda>views.
     io_bind (get_table_relationships self) (\<lambda>relationships.
     io_bind (\<lambda>w. (Inr (isoformat lib (now w)), w)) (\<lambda>stamp.
     io_bind (process_tables include_samples sample_rows include_statistics self tables [])
       (\<lambda>table_map.
     io_bind (process_views include_samples sample_rows self views []) (\<lambda>view_map.
     io_return
       \<lparr>database_name = map_of (connection_params self) ''database'',
        extracted_at = stamp, total_tables = length tables, total_views = length views,
        tables = table_map, views = view_map, relationships = relationships\<rparr>))))))"

definition extract_all_metadata ::
  "pylib \<Rightarrow> bool \<Rightarrow> int \<Rightarrow> bool \<Rightarrow> bool \<Rightarrow> extractor \<Rightarrow> world
     \<Rightarrow> (py_error + metadata) \<times> extractor \<times> world" where
  "extract_all_metadata lib include_samples sample_rows include_statistics use_cache self w =
     (let (hit, self1) = (if use_cache then load_from_cache self w else (False, self))
      in if hit then (Inr (metadata self1), self1, w)
         else case connect self1 w of
                (False, self2, w2) \<Rightarrow> (Inr EmptyDict, self2, w2)
              | (True, self2, w2) \<Rightarrow>
                  (case build_metadata lib include_samples sample_rows include_statistics
                          self2 w2 of
                     (Inl e, w3) \<Rightarrow> (Inl e, close self2, w3)
                   | (Inr snap, w3) \<Rightarrow>
                       (let self3 = self2\<lparr>metadata := Snapshot snap\<rparr>;
                            w4 = (if use_cache then save_to_cache self3 w3 else w3)
                        in (Inr (Snapshot snap), close self3, w4))))"

subsection \<open>Text formatting\<close>

text \<open>A Python \<open>str\<close> is modelled by its UTF-8 bytes.\<close>

definition nl :: string where
  "nl = [CHR 0x0A]"

definition bullet :: string where
  "bullet = [CHR 0xE2, CHR 0x80, CHR 0xA2]"

definition arrow :: string where
  "arrow = [CHR 0xE2, CHR 0x86, CHR 0x92]"

definition corner_arrow :: string where
  "corner_arrow = [CHR 0xE2, CHR 0x94, CHR 0x94, CHR 0xE2, CHR 0x94, CHR 0x80] @ arrow"

definition chart :: string where
  "chart = [CHR 0xF0, CHR 0x9F, CHR 0x93, CHR 0x8A]"

definition rule80 :: string where
  "rule80 = replicate 80 CHR ''=''"

definition dash80 :: string where
  "dash80 = replicate 80 CHR ''-''"

text \<open>\<open>sep.join(xs)\<close>\<close>

fun join :: "string \<Rightarrow> string list \<Rightarrow> string" where
  "join sep [] = []"
| "join sep [x] = x"
| "join sep (x # y # ys) = x @ sep @ join sep (y # ys)"

function str_nat :: "nat \<Rightarrow> string" where
  "str_nat n =
     (if n < 10 then [''0123456789'' ! n] else str_nat (n div 10) @ [''0123456789'' ! (n mod 10)])"
  by pat_completeness auto
termination
  by (relation "measure id") auto

declare str_nat.simps [simp del]

definition str_int :: "int \<Rightarrow> string" where
  "str_int i = (if i < 0 then ''-'' @ str_nat (nat (- i)) else str_nat (nat i))"

function group_thousands :: "string \<Rightarrow> string" where
  "group_thousands ds =
     (if length ds \<le> 3 then ds
      else group_thousands (take (length ds - 3) ds) @ '','' @ drop (length ds - 3) ds)"
  by pat_completeness auto
termination
  by (relation "measure length") auto

declare group_thousands.simps [simp del]

text \<open>The format \<open>{i:,}\<close>.\<close>

definition format_comma :: "int \<Rightarrow> string" where
  "format_comma i =
     (if i < 0 then ''-'' @ group_thousands (str_nat (nat (- i)))
      else group_thousands (str_nat (nat i)))"

text \<open>\<open>str\<close> of a string that may be \<open>None\<close>, and the truth value of an optional string
  or integer.\<close>

definition str_opt :: "string option \<Rightarrow> string" where
  "str_opt x = (case x of None \<Rightarrow> ''None'' | Some s \<Rightarrow> s)"

definition truthy_str :: "string option \<Rightarrow> bool" where
  "truthy_str x = (case x of None \<Rightarrow> False | Some s \<Rightarrow> s \<noteq> [])"

definition truthy_int :: "int option \<Rightarrow> bool" where
  "truthy_int x = (case x of None \<Rightarrow> False | Some i \<Rightarrow> i \<noteq> 0)"

definition str_pynum :: "pylib \<Rightarrow> pynum \<Rightarrow> string" where
  "str_pynum lib x = (case x of PyZero \<Rightarrow> ''0'' | PyPct a b \<Rightarrow> str_float lib a b)"

definition generate_relationship_diagram :: "pylib \<Rightarrow> extractor \<Rightarrow> string io" where
  "generate_relationship_diagram lib self =
     io_bind (get_table_relationships self) (\<lambda>relationships.
       let diagram = [nl @ rule80, ''DATABASE RELATIONSHIP DIAGRAM'', rule80 @ nl] in
       if relationships = []
       then io_return
              (join nl (diagram @ [''No foreign key relationships found in the database.'' @ nl]))
       else io_return
              (join nl
                 (diagram
                  @ concat (map (\<lambda>(from_table, rels).
                      (nl @ chart @ '' '' @ upper lib from_table)
                      # map (\<lambda>rel. ''   '' @ corner_arrow @ '' '' @ from_column rel
                                    @ '' references '' @ to_table rel @ ''.'' @ to_column rel)
                          rels) relationships)
                  @ [nl @ rule80 @ nl])))"

text \<open>The lines \<open>Row i: ...\<close> of \<open>enumerate(rows, i)\<close>.\<close>

fun sample_lines :: "pylib \<Rightarrow> nat \<Rightarrow> row list \<Rightarrow> string list" where
  "sample_lines lib i [] = []"
| "sample_lines lib i (r # rs) =
     (''  Row '' @ str_nat i @ '': '' @ json_dumps lib r) # sample_lines lib (Suc i) rs"

definition col_desc :: "pylib \<Rightarrow> table_meta \<Rightarrow> column_meta \<Rightarrow> string" where
  "col_desc lib table_data col =
     ''  '' @ bullet @ '' '' @ column_name col @ '': '' @ data_type col
     @ (if truthy_int (character_maximum_length col)
        then ''('' @ str_int (the (character_maximum_length col)) @ '')''
        else if truthy_int (numeric_precision col)
        then ''('' @ str_int (the (numeric_precision col))
             @ (if truthy_int (numeric_scale col)
                then '','' @ str_int (the (numeric_scale col)) else [])
             @ '')''
        else [])
     @ '' '' @ (if is_nullable col = ''YES'' then ''NULL'' else ''NOT NULL'')
     @ (if truthy_str (column_default col)
        then '' DEFAULT '' @ the (column_default col) else [])
     @ (case column_statistics table_data of
          None \<Rightarrow> []
        | Some all_stats \<Rightarrow>
            (case map_of all_stats (column_name col) of
               Some (Stats nc np dc dp) \<Rightarrow>
                 '' [Nulls: '' @ str_pynum lib np @ ''%, Distinct: '' @ str_int dc @ '']''
             | _ \<Rightarrow> []))
     @ (if truthy_str (column_comment col)
        then nl @ ''    Comment: '' @ the (column_comment col) else [])"

definition fk_desc :: "foreign_key \<Rightarrow> string" where
  "fk_desc fk =
     ''  '' @ bullet @ '' '' @ fk_column_name fk @ '' '' @ arrow @ '' ''
     @ foreign_table_name fk @ ''.'' @ foreign_column_name fk
     @ nl @ ''    ON UPDATE: '' @ update_rule fk @ '', ON DELETE: '' @ delete_rule fk"

definition idx_desc :: "index_meta \<Rightarrow> string" where
  "idx_desc idx =
     (let idx_type = (if is_unique idx then ''UNIQUE'' else ''INDEX'');
          idx_type = (if is_primary idx then ''PRIMARY KEY'' else idx_type)
      in ''  '' @ bullet @ '' '' @ index_name idx @ '' ('' @ idx_type @ '', '' @ index_type idx
         @ '') on ['' @ join '', '' (columns idx) @ '']'')"

text \<open>The lines that the body of \<open>for table_name, table_data in ...\<close> appends.\<close>

definition table_lines :: "pylib \<Rightarrow> string \<Rightarrow> table_meta \<Rightarrow> string list" where
  "table_lines lib table_name table_data =
     [nl @ rule80, ''TABLE: '' @ table_name, rule80,
      ''Type: '' @ table_type table_data,
      ''Row Count: ~'' @ format_comma (row_count table_data),
      ''Size: '' @ str_opt (table_size table_data)]
     @ (if truthy_str (comment table_data)
        then [''Description: '' @ the (comment table_data)] else [])
     @ (if primary_keys table_data \<noteq> []
        then [nl @ ''Primary Key(s): '' @ join '', '' (primary_keys table_data)] else [])
     @ [nl @ ''COLUMNS ('' @ str_nat (length (t_columns table_data)) @ ''):'']
     @ map (col_desc lib table_data) (t_columns table_data)
     @ (if foreign_keys table_data \<noteq> []
        then (nl @ ''FOREIGN KEYS:'') # map fk_desc (foreign_keys table_data) else [])
     @ (if indexes table_data \<noteq> []
        then (nl @ ''INDEXES:'') # map idx_desc (indexes table_data) else [])
     @ (case sample_data table_data of
          None \<Rightarrow> []
        | Some rows \<Rightarrow>
            if rows \<noteq> [] \<and> length rows > 0
            then (nl @ ''SAMPLE DATA (first '' @ str_nat (length rows) @ '' rows):'')
                 # sample_lines lib 1 rows
            else [])"

text \<open>The lines that the body of \<open>for view_name, view_data in ...\<close> appends.\<close>

definition view_lines :: "pylib \<Rightarrow> string \<Rightarrow> view_meta \<Rightarrow> string list" where
  "view_lines lib name view_data =
     [nl @ dash80, ''VIEW: '' @ name, dash80, ''Type: '' @ view_type view_data]
     @ (if truthy_str (v_comment view_data)
        then [''Description: '' @ the (v_comment view_data)] else [])
     @ [nl @ ''Definition:'' @ nl @ str_opt (v_definition view_data),
        nl @ ''COLUMNS ('' @ str_nat (length (v_columns view_data)) @ ''):'']
     @ map (\<lambda>col. ''  '' @ bullet @ '' '' @ column_name col @ '': '' @ data_type col)
         (v_columns view_data)
     @ (case v_sample_data view_data of
          None \<Rightarrow> []
        | Some rows \<Rightarrow>
            if rows \<noteq> [] then (nl @ ''SAMPLE DATA:'') # sample_lines lib 1 rows else [])"

definition format_for_ai :: "pylib \<Rightarrow> extractor \<Rightarrow> string io" where
  "format_for_ai lib self =
     (case metadata self of
        EmptyDict \<Rightarrow> io_return ''No metadata available. Run extract_all_metadata() first.''
      | Snapshot m \<Rightarrow>
          io_bind (generate_relationship_diagram lib self) (\<lambda>diagram.
            io_return
              (join nl
                 ([''DATABASE: '' @ str_opt (database_name m),
                   ''Extracted: '' @ extracted_at m,
                   ''Total Tables: '' @ str_nat (total_tables m),
                   ''Total Views: '' @ str_nat (total_views m) @ nl,
                   diagram,
                   rule80, ''DETAILED SCHEMA INFORMATION'', rule80]
                  @ concat (map (\<lambda>(table_name, table_data). table_lines lib table_name table_data)
                              (tables m))
                  @ (if views m \<noteq> []
                     then [nl @ nl @ rule80, ''VIEWS AND MATERIALIZED VIEWS'', rule80]
                          @ concat (map (\<lambda>(name, view_data). view_lines lib name view_data)
                                      (views m))
                     else [])))))"

subsection \<open>Reading a key of the returned dictionary\<close>

text \<open>\<open>m['total_tables']\<close> and the like on the value that \<open>extract_all_metadata\<close>
  returns: a key that the dictionary does not have raises \<open>KeyError\<close>.\<close>

definition lookup_total_tables :: "metadata \<Rightarrow> py_error + nat" where
  "lookup_total_tables m = (case m of EmptyDict \<Rightarrow> Inl KeyError | Snapshot s \<Rightarrow> Inr (total_tables s))"

definition lookup_total_views :: "metadata \<Rightarrow> py_error + nat" where
  "lookup_total_views m = (case m of EmptyDict \<Rightarrow> Inl KeyError | Snapshot s \<Rightarrow> Inr (total_views s))"

definition lookup_tables :: "metadata \<Rightarrow> py_error + (string \<times> table_meta) list" where
  "lookup_tables m = (case m of EmptyDict \<Rightarrow> Inl KeyError | Snapshot s \<Rightarrow> Inr (tables s))"

definition lookup_views :: "metadata \<Rightarrow> py_error + (string \<times> view_meta) list" where
  "lookup_views m = (case m of EmptyDict \<Rightarrow> Inl KeyError | Snapshot s \<Rightarrow> Inr (views s))"

definition lookup_relationships ::
  "metadata \<Rightarrow> py_error + (string \<times> relationship_edge list) list" where
  "lookup_relationships m =
     (case m of EmptyDict \<Rightarrow> Inl KeyError | Snapshot s \<Rightarrow> Inr (relationships s))"

subsection \<open>An example schema\<close>

text \<open>
  The schema \<open>users(id pk)\<close>, \<open>orders(id pk, user_id fk \<rightarrow> users.id)\<close> and a view
  \<open>recent\<close>. The planner estimates no rows for \<open>orders\<close> and two for \<open>users\<close>; every
  query answers.
\<close>

text \<open>Stand-ins for the four library functions, enough to evaluate the example: a time is
  printed as its number of microseconds, a row as JSON without escapes, a percentage as
  \<open>a * 100 div b\<close> with one decimal \<open>0\<close> (exact when the percentage is a whole number),
  and only the letters \<open>a\<close> to \<open>z\<close> are put in upper case.\<close>

definition ascii_upper :: "string \<Rightarrow> string" where
  "ascii_upper s =
     map (\<lambda>c. if 97 \<le> (of_char c :: nat) \<and> (of_char c :: nat) \<le> 122
              then char_of ((of_char c :: nat) - 32) else c) s"

definition json_string :: "string \<Rightarrow> string" where
  "json_string s = [CHR 0x22] @ s @ [CHR 0x22]"

fun json_value :: "pyval \<Rightarrow> string" where
  "json_value PyNone = ''null''"
| "json_value (PyBool b) = (if b then ''true'' else ''false'')"
| "json_value (PyInt i) = str_int i"
| "json_value (PyStr s) = json_string s"
| "json_value (PyOpaque s) = json_string s"

definition demo_lib :: pylib where
  "demo_lib =
     \<lparr>isoformat = (\<lambda>t. ''T+'' @ str_int t),
      json_dumps = (\<lambda>r. ''{'' @ join '', '' (map (\<lambda>(k, v). json_string k @ '': '' @ json_value v) r)
                          @ ''}''),
      str_float = (\<lambda>a b. str_int (a * 100 div b) @ ''.0''),
      upper = ascii_upper\<rparr>"

definition id_column :: column_meta where
  "id_column =
     \<lparr>column_name = ''id'', data_type = ''integer'', character_maximum_length = None,
      numeric_precision = Some 32, numeric_scale = Some 0, is_nullable = ''NO'',
      column_default = None, column_comment = None, ordinal_position = 1\<rparr>"

definition user_id_column :: column_meta where
  "user_id_column = id_column\<lparr>column_name := ''user_id'', ordinal_position := 2\<rparr>"

definition orders_fk :: foreign_key where
  "orders_fk =
     \<lparr>fk_column_name = ''user_id'', foreign_table_name = ''users'',
      foreign_column_name = ''id'', constraint_name = ''orders_user_id_fkey'',
      update_rule = ''NO ACTION'', delete_rule = ''CASCADE''\<rparr>"

definition orders_rel :: relationship_row where
  "orders_rel =
     \<lparr>from_table = ''orders'', rr_from_column = ''user_id'', rr_to_table = ''users'',
      rr_to_column = ''id''\<rparr>"

definition demo_db :: database where
  "demo_db =
     \<lparr>q_tables =
        Inr [\<lparr>ti_table_name = ''orders'', ti_table_type = ''BASE TABLE'',
              table_comment = None, column_count = 2\<rparr>,
             \<lparr>ti_table_name = ''users'', ti_table_type = ''BASE TABLE'',
              table_comment = None, column_count = 1\<rparr>],
      q_views =
        Inr [\<lparr>view_name = ''recent'', vi_table_type = ''VIEW'', view_comment = None,
              view_definition = Some ''SELECT id FROM orders''\<rparr>],
      q_columns = (\<lambda>t. if t = ''orders'' then Inr [id_column, user_id_column]
                         else Inr [id_column]),
      q_primary_keys = (\<lambda>t. Inr [''id'']),
      q_foreign_keys = (\<lambda>t. if t = ''orders'' then Inr [orders_fk] else Inr []),
      q_indexes =
        (\<lambda>t. Inr [\<lparr>ir_index_name = t @ ''_pkey'', ir_column_name = ''id'', ir_is_unique = True,
                    ir_is_primary = True, ir_index_type = ''btree''\<rparr>]),
      q_sample = (\<lambda>t n. Inr [[(''id'', PyInt 1)]]),
      q_row_count = (\<lambda>t. if t = ''users'' then Inr (Some 2) else Inr (Some 0)),
      q_table_size = (\<lambda>t. Inr (Some (Some ''16 kB''))),
      q_column_stats = (\<lambda>t c. Inr \<lparr>total_rows = 2, non_null_count = 2, sr_distinct_count = 2\<rparr>),
      q_relationships = Inr [orders_rel]\<rparr>"

definition demo_world :: world where
  "demo_world =
     \<lparr>fs = (\<lambda>p. Missing), write_result = (\<lambda>p. WriteOk), now = 0, connectable = True,
      db = demo_db, journal = []\<rparr>"

definition demo_self :: extractor where
  "demo_self = init [(''database'', ''shop'')] ''.db_metadata_cache.pkl''"

text \<open>What a fresh extraction of the example returns.\<close>

definition demo_orders :: table_meta where
  "demo_orders =
     \<lparr>table_type = ''BASE TABLE'', comment = None, row_count = 0,
      table_size = Some ''16 kB'', t_columns = [id_column, user_id_column],
      primary_keys = [''id''], foreign_keys = [orders_fk],
      indexes = [\<lparr>index_name = ''orders_pkey'', columns = [''id''], is_unique = True,
                  is_primary = True, index_type = ''btree''\<rparr>],
      column_statistics = None, sample_data = None\<rparr>"

definition demo_users :: table_meta where
  "demo_users =
     \<lparr>table_type = ''BASE TABLE'', comment = None, row_count = 2,
      table_size = Some ''16 kB'', t_columns = [id_column], primary_keys = [''id''],
      foreign_keys = [],
      indexes = [\<lparr>index_name = ''users_pkey'', columns = [''id''], is_unique = True,
                  is_primary = True, index_type = ''btree''\<rparr>],
      column_statistics = Some [(''id'', Stats 0 (PyPct 0 2) 2 (PyPct 2 2))],
      sample_data = Some [[(''id'', PyInt 1)]]\<rparr>"

definition demo_recent :: view_meta where
  "demo_recent =
     \<lparr>view_type = ''VIEW'', v_comment = None, v_definition = Some ''SELECT id FROM orders'',
      v_columns = [id_column], v_sample_data = Some [[(''id'', PyInt 1)]]\<rparr>"

definition demo_snapshot :: snapshot where
  "demo_snapshot =
     \<lparr>database_name = Some ''shop'', extracted_at = ''T+0'', total_tables = 2,
      total_views = 1,
      tables = [(''orders'', demo_orders), (''users'', demo_users)],
      views = [(''recent'', demo_recent)],
      relationships =
        [(''orders'', [\<lparr>from_column = ''user_id'', to_table = ''users'', to_column = ''id''\<rparr>])]\<rparr>"

text \<open>The example with a cache file written at time 0, read one second later.\<close>

definition cached_world :: world where
  "cached_world =
     demo_world\<lparr>fs := (\<lambda>p. Pickled \<lparr>cd_metadata = Snapshot demo_snapshot, cached_at = 0\<rparr>),
                now := 1000000\<rparr>"

text \<open>The example with a server on which the foreign-key query of \<open>orders\<close> raises.\<close>

definition fk_broken_world :: world where
  "fk_broken_world =
     demo_world\<lparr>db := demo_db\<lparr>q_foreign_keys :=
       (\<lambda>t. if t = ''orders'' then Inl (DatabaseError ''statement timeout'') else Inr [])\<rparr>\<rparr>"

text \<open>The example with a server that is not reachable.\<close>

definition unreachable_world :: world where
  "unreachable_world = demo_world\<lparr>connectable := False\<rparr>"

text \<open>The object after an extraction of the example, with a cursor that is open.\<close>

definition connected_self :: extractor where
  "connected_self = demo_self\<lparr>metadata := Snapshot demo_snapshot, cursor := Opened\<rparr>"

subsection \<open>The invariant of the relationship loop\<close>

text \<open>\<open>grouped rels rows\<close>: the dictionary \<open>rels\<close> has one key for each source table of
  \<open>rows\<close>, and under it the edges of that table in the order of \<open>rows\<close>.\<close>

definition grouped :: "(string \<times> relationship_edge list) list \<Rightarrow> relationship_row list \<Rightarrow> bool" where
  "grouped rels rows =
     (distinct (map fst rels)
      \<and> (\<forall>t. map_of rels t =
               (if t \<in> from_table ` set rows
                then Some (map edge_of (filter (\<lambda>r. from_table r = t) rows)) else None)))"

subsection \<open>Computations that leave the server as it is\<close>

text \<open>\<open>io_keeps d m\<close>: started on the server \<open>d\<close>, \<open>m\<close> ends on the server \<open>d\<close>.\<close>

definition io_keeps :: "database \<Rightarrow> 'a io \<Rightarrow> bool" where
  "io_keeps d m = (\<forall>w. db w = d \<longrightarrow> db (snd (m w)) = d)"

section \<open>Properties\<close>

subsection \<open>Sequencing and dictionaries\<close>

lemma io_bind_result:
  "io_bind m f w = (Inr y, w'') \<Longrightarrow> \<exists>x w'. m w = (Inr x, w') \<and> f x w' = (Inr y, w'')"
  by (auto simp: io_bind_def split: prod.splits sum.splits)

lemma io_try_total: "\<exists>x w'. io_try m h w = (Inr x, w')"
  by (auto simp: io_try_def split: prod.splits sum.splits)

lemma dict_set_subset: "set (dict_set d k v) \<subseteq> insert (k, v) (set d)"
  by (induction d k v rule: dict_set.induct) auto

lemma map_of_dict_set: "map_of (dict_set d k v) = (map_of d)(k \<mapsto> v)"
  by (induction d k v rule: dict_set.induct) (auto simp: fun_eq_iff)

lemma keys_dict_append:
  "map fst (dict_append d k x) = (if k \<in> set (map fst d) then map fst d else map fst d @ [k])"
  by (induction d k x rule: dict_append.induct) auto

lemma map_of_dict_append:
  "map_of (dict_append d k x) =
     (map_of d)(k \<mapsto> (case map_of d k of None \<Rightarrow> [x] | Some xs \<Rightarrow> xs @ [x]))"
  by (induction d k x rule: dict_append.induct) (auto simp: fun_eq_iff)

subsection \<open>The cache\<close>

lemma cache_ttl_init: "cache_ttl (init params path) = 3600000000"
  by (simp add: init_def)

text \<open>\<open>extract_all_metadata\<close> changes the metadata and the cursor of the object only: the
  connection parameters, the path of the cache file and the time-to-live stay as
  \<open>__init__\<close> has set them.\<close>

lemma extract_all_metadata_keeps_configuration:
  "connection_params (fst (snd (extract_all_metadata lib include_samples sample_rows
       include_statistics use_cache self w))) = connection_params self
   \<and> cache_file (fst (snd (extract_all_metadata lib include_samples sample_rows
       include_statistics use_cache self w))) = cache_file self
   \<and> cache_ttl (fst (snd (extract_all_metadata lib include_samples sample_rows
       include_statistics use_cache self w))) = cache_ttl self"
  by (auto simp: extract_all_metadata_def load_from_cache_def connect_def close_def Let_def
        split: if_splits prod.splits sum.splits handle.splits bool.splits)

text \<open>
  C6. \<open>load_from_cache\<close> (the cache's get) has no error result. On an object built by
  \<open>__init__\<close>, whatever its metadata and cursor, it reports a miss exactly when the cache
  file does not exist, or reading the entry from it raises, or the age \<open>now - cached_at\<close>
  of the entry is above one hour (3600000000 microseconds); for every other file it reports a
  hit and stores the metadata of the entry in the object.
\<close>

theorem load_from_cache_miss_iff:
  "(let self = (init params path)\<lparr>metadata := m, cursor := h\<rparr> in
     (fst (load_from_cache self w) = False) =
        (fs w path = Missing \<or> fs w path = Garbage
         \<or> (\<exists>cd. fs w path = Pickled cd \<and> now w - cached_at cd > 3600000000))
     \<and> (\<forall>cd. fs w path = Pickled cd \<and> \<not> now w - cached_at cd > 3600000000
           \<longrightarrow> load_from_cache self w = (True, self\<lparr>metadata := cd_metadata cd\<rparr>)))"
  by (auto simp: load_from_cache_def read_cache_def init_def Let_def split: file_content.splits)

theorem load_from_cache_witness:
  "fst (load_from_cache demo_self (demo_world\<lparr>fs := (\<lambda>p. Pickled \<lparr>cd_metadata = Snapshot demo_snapshot, cached_at = 0\<rparr>), now := 3600000001\<rparr>)) = False
   \<and> load_from_cache demo_self (demo_world\<lparr>fs := (\<lambda>p. Pickled \<lparr>cd_metadata = Snapshot demo_snapshot, cached_at = 0\<rparr>), now := 3600000000\<rparr>)
       = (True, demo_self\<lparr>metadata := Snapshot demo_snapshot\<rparr>)
   \<and> fst (load_from_cache demo_self (demo_world\<lparr>fs := (\<lambda>p. Garbage)\<rparr>)) = False
   \<and> fst (load_from_cache demo_self demo_world) = False"
  using load_from_cache_miss_iff[where params = "[(''database'', ''shop'')]" and path = "''.db_metadata_cache.pkl''"
           and m = EmptyDict and h = NoAttr
           and w = "demo_world\<lparr>fs := (\<lambda>p. Pickled \<lparr>cd_metadata = Snapshot demo_snapshot, cached_at = 0\<rparr>), now := 3600000001\<rparr>"]
        load_from_cache_miss_iff[where params = "[(''database'', ''shop'')]" and path = "''.db_metadata_cache.pkl''"
           and m = EmptyDict and h = NoAttr
           and w = "demo_world\<lparr>fs := (\<lambda>p. Pickled \<lparr>cd_metadata = Snapshot demo_snapshot, cached_at = 0\<rparr>), now := 3600000000\<rparr>"]
        load_from_cache_miss_iff[where params = "[(''database'', ''shop'')]" and path = "''.db_metadata_cache.pkl''"
           and m = EmptyDict and h = NoAttr and w = "demo_world\<lparr>fs := (\<lambda>p. Garbage)\<rparr>"]
        load_from_cache_miss_iff[where params = "[(''database'', ''shop'')]" and path = "''.db_metadata_cache.pkl''"
           and m = EmptyDict and h = NoAttr and w = "demo_world"]
  by (simp add: demo_self_def init_def demo_world_def Let_def)

text \<open>
  C7. Round trip: when \<open>save_to_cache\<close> has written the file, a \<open>load_from_cache\<close>
  of the same path at a time at most the time-to-live later is a hit, and the metadata it
  loads is the metadata that was saved. The reading object may be another one, and the world
  may have changed in between, as long as the file has not.
\<close>

theorem cache_round_trip:
  assumes "write_result w (cache_file self) = WriteOk"
      and "cache_file self' = cache_file self"
      and "fs w' (cache_file self) = fs (save_to_cache self w) (cache_file self)"
      and "now w' - now w \<le> cache_ttl self'"
  shows "load_from_cache self' w' = (True, self'\<lparr>metadata := metadata self\<rparr>)"
  using assms
  by (simp add: load_from_cache_def save_to_cache_def read_cache_def Let_def)

theorem cache_round_trip_witness:
  "write_result demo_world (cache_file connected_self) = WriteOk
   \<and> load_from_cache demo_self ((save_to_cache connected_self demo_world)\<lparr>now := 3600000000\<rparr>)
       = (True, demo_self\<lparr>metadata := Snapshot demo_snapshot\<rparr>)"
proof -
  have ok: "write_result demo_world (cache_file connected_self) = WriteOk"
    by (simp add: demo_world_def)
  have same: "cache_file demo_self = cache_file connected_self"
    by (simp add: connected_self_def)
  have ttl: "now ((save_to_cache connected_self demo_world)\<lparr>now := 3600000000\<rparr>) - now demo_world
               \<le> cache_ttl demo_self"
    by (simp add: demo_world_def demo_self_def init_def)
  from cache_round_trip[OF ok same _ ttl]
  have "load_from_cache demo_self ((save_to_cache connected_self demo_world)\<lparr>now := 3600000000\<rparr>)
          = (True, demo_self\<lparr>metadata := metadata connected_self\<rparr>)"
    by simp
  with ok show ?thesis by (simp add: connected_self_def)
qed

subsection \<open>Extraction: cache hit and connection failure\<close>

text \<open>
  C4. With \<open>use_cache\<close> true and a cache file whose entry is not older than the
  time-to-live, \<open>extract_all_metadata\<close> returns the cached metadata as it is, whatever
  \<open>include_samples\<close>, \<open>sample_rows\<close> and \<open>include_statistics\<close> are, and leaves the
  world as it was: the journal gets no \<open>Connect\<close> and no \<open>Execute\<close>.
\<close>

theorem cache_hit_returns_cached_snapshot:
  assumes "fs w (cache_file self) = Pickled cd"
      and "now w - cached_at cd \<le> cache_ttl self"
  shows "extract_all_metadata lib include_samples sample_rows include_statistics True self w
           = (Inr (cd_metadata cd), self\<lparr>metadata := cd_metadata cd\<rparr>, w)"
  using assms
  by (simp add: extract_all_metadata_def load_from_cache_def read_cache_def)

theorem cache_hit_witness:
  "fs cached_world (cache_file demo_self) = Pickled \<lparr>cd_metadata = Snapshot demo_snapshot, cached_at = 0\<rparr>
   \<and> extract_all_metadata demo_lib False 0 False True demo_self cached_world
       = (Inr (Snapshot demo_snapshot), demo_self\<lparr>metadata := Snapshot demo_snapshot\<rparr>, cached_world)
   \<and> journal cached_world = []"
proof -
  have hit: "fs cached_world (cache_file demo_self)
               = Pickled \<lparr>cd_metadata = Snapshot demo_snapshot, cached_at = 0\<rparr>"
    by (simp add: cached_world_def)
  have fresh: "now cached_world - cached_at \<lparr>cd_metadata = Snapshot demo_snapshot, cached_at = 0\<rparr>
                 \<le> cache_ttl demo_self"
    by (simp add: cached_world_def demo_self_def init_def)
  from cache_hit_returns_cached_snapshot[OF hit fresh, of demo_lib False 0 False] hit
  show ?thesis by (simp add: cached_world_def demo_world_def)
qed

text \<open>
  C3, as the code has it. When the cache is not used or misses and the connection cannot be
  opened, \<open>extract_all_metadata\<close> raises nothing and returns the empty dictionary \<open>{}\<close>;
  the object is unchanged and the only effect is the attempt to connect.
\<close>

theorem connection_failure_returns_empty_dict:
  assumes "\<not> use_cache \<or> \<not> fst (load_from_cache self w)"
      and "\<not> connectable w"
  shows "extract_all_metadata lib include_samples sample_rows include_statistics use_cache self w
           = (Inr EmptyDict, self, w\<lparr>journal := journal w @ [Connect]\<rparr>)"
proof -
  have miss: "(if use_cache then load_from_cache self w else (False, self)) = (False, self)"
    using assms(1)
    by (auto simp: load_from_cache_def split: if_splits sum.splits)
  show ?thesis
    unfolding extract_all_metadata_def miss
    using assms(2) by (simp add: connect_def Let_def)
qed

theorem connection_failure_witness:
  "\<not> connectable unreachable_world
   \<and> extract_all_metadata demo_lib True 3 True True demo_self unreachable_world
       = (Inr EmptyDict, demo_self, unreachable_world\<lparr>journal := [Connect]\<rparr>)"
proof -
  have down: "\<not> connectable unreachable_world"
    by (simp add: unreachable_world_def)
  have miss: "\<not> True \<or> \<not> fst (load_from_cache demo_self unreachable_world)"
    by (simp add: load_from_cache_def unreachable_world_def demo_world_def)
  from connection_failure_returns_empty_dict[OF miss down, of demo_lib True 3 True] down
  show ?thesis by (simp add: unreachable_world_def demo_world_def)
qed

text \<open>
  C3, as stated, fails: the dictionary returned on a connection failure has no
  \<open>total_tables\<close>, \<open>total_views\<close>, \<open>tables\<close>, \<open>views\<close> or \<open>relationships\<close> key, so
  reading any of them raises \<open>KeyError\<close> instead of giving zero or an empty mapping.
\<close>

theorem connection_failure_not_zero_counts:
  "fst (extract_all_metadata demo_lib True 3 True True demo_self unreachable_world) = Inr EmptyDict
   \<and> lookup_total_tables EmptyDict \<noteq> Inr 0
   \<and> lookup_total_views EmptyDict \<noteq> Inr 0
   \<and> lookup_tables EmptyDict \<noteq> Inr []
   \<and> lookup_views EmptyDict \<noteq> Inr []
   \<and> lookup_relationships EmptyDict \<noteq> Inr []"
  by (simp add: extract_all_metadata_def load_from_cache_def connect_def Let_def
        unreachable_world_def demo_world_def lookup_total_tables_def lookup_total_views_def
        lookup_tables_def lookup_views_def lookup_relationships_def)

subsection \<open>Extraction: tables and views\<close>

lemma process_table_short_circuit:
  assumes "process_table include_samples sample_rows include_statistics self ti w = (Inr tm, w')"
      and "row_count tm \<le> 0"
  shows "column_statistics tm = None \<and> sample_data tm = None"
  using assms unfolding process_table_def Let_def
  by (auto dest!: io_bind_result simp: io_return_def split: if_splits)

lemma process_tables_short_circuit:
  assumes "process_tables include_samples sample_rows include_statistics self tis acc w = (Inr res, w')"
      and "\<forall>(n, tm) \<in> set acc. row_count tm \<le> 0 \<longrightarrow> column_statistics tm = None \<and> sample_data tm = None"
  shows "\<forall>(n, tm) \<in> set res. row_count tm \<le> 0 \<longrightarrow> column_statistics tm = None \<and> sample_data tm = None"
  using assms
proof (induction tis arbitrary: acc w)
  case Nil
  then show ?case by (simp add: io_return_def)
next
  case (Cons ti tis)
  from Cons.prems(1) obtain tm w1 where
    step: "process_table include_samples sample_rows include_statistics self ti w = (Inr tm, w1)"
    and rest: "process_tables include_samples sample_rows include_statistics self tis
                 (dict_set acc (ti_table_name ti) tm) w1 = (Inr res, w')"
    by (auto dest!: io_bind_result)
  have "\<forall>(n, t) \<in> set (dict_set acc (ti_table_name ti) tm).
          row_count t \<le> 0 \<longrightarrow> column_statistics t = None \<and> sample_data t = None"
    using Cons.prems(2) process_table_short_circuit[OF step] dict_set_subset[of acc "ti_table_name ti" tm]
    by auto
  from Cons.IH[OF rest this] show ?case .
qed

lemma fresh_extract_result:
  assumes "fst (extract_all_metadata lib include_samples sample_rows include_statistics use_cache self w)
             = Inr (Snapshot s)"
      and "\<not> use_cache \<or> \<not> fst (load_from_cache self w)"
  shows "\<exists>w2 w3. build_metadata lib include_samples sample_rows include_statistics
                    (self\<lparr>cursor := Opened\<rparr>) w2 = (Inr s, w3)"
proof -
  have miss: "(if use_cache then load_from_cache self w else (False, self)) = (False, self)"
    using assms(2)
    by (auto simp: load_from_cache_def split: if_splits sum.splits)
  show ?thesis
    using assms(1) unfolding extract_all_metadata_def miss
    by (auto simp: connect_def Let_def split: if_splits prod.splits sum.splits)
qed

lemma build_metadata_tables:
  assumes "build_metadata lib include_samples sample_rows include_statistics self w = (Inr s, w')"
  shows "\<exists>tis w1 w2. process_tables include_samples sample_rows include_statistics self tis [] w1
                       = (Inr (tables s), w2)"
  using assms unfolding build_metadata_def
  by (fastforce dest!: io_bind_result simp: io_return_def)


lemma demo_extraction:
  "fst (extract_all_metadata demo_lib True 3 True False demo_self demo_world)
     = Inr (Snapshot demo_snapshot)"
  by code_simp

text \<open>
  C5. In the snapshot of a fresh extraction, a table whose \<open>row_count\<close> is 0 has neither
  a \<open>column_statistics\<close> nor a \<open>sample_data\<close> key, whatever \<open>include_statistics\<close> and
  \<open>include_samples\<close> are.
\<close>

theorem empty_table_short_circuit:
  assumes "fst (extract_all_metadata lib include_samples sample_rows include_statistics use_cache self w)
             = Inr (Snapshot s)"
      and "\<not> use_cache \<or> \<not> fst (load_from_cache self w)"
      and "(name, tm) \<in> set (tables s)"
      and "row_count tm = 0"
  shows "column_statistics tm = None \<and> sample_data tm = None"
proof -
  from fresh_extract_result[OF assms(1,2)] obtain w2 w3 where
    "build_metadata lib include_samples sample_rows include_statistics (self\<lparr>cursor := Opened\<rparr>) w2
       = (Inr s, w3)" by blast
  from build_metadata_tables[OF this] obtain tis w4 w5 where
    "process_tables include_samples sample_rows include_statistics (self\<lparr>cursor := Opened\<rparr>) tis [] w4
       = (Inr (tables s), w5)" by blast
  from process_tables_short_circuit[OF this] assms(3,4) show ?thesis by auto
qed

theorem empty_table_short_circuit_witness:
  "fst (extract_all_metadata demo_lib True 3 True False demo_self demo_world)
     = Inr (Snapshot demo_snapshot)
   \<and> (''orders'', demo_orders) \<in> set (tables demo_snapshot)
   \<and> row_count demo_orders = 0
   \<and> column_statistics demo_orders = None \<and> sample_data demo_orders = None"
proof -
  have mem: "(''orders'', demo_orders) \<in> set (tables demo_snapshot)"
    by (simp add: demo_snapshot_def)
  have zero: "row_count demo_orders = 0"
    by (simp add: demo_orders_def)
  from empty_table_short_circuit[OF demo_extraction _ mem zero] demo_extraction mem zero
  show ?thesis by simp
qed

lemma get_sample_data_total: "\<exists>rows w'. get_sample_data self name limit w = (Inr rows, w')"
  by (auto simp: get_sample_data_def io_try_def split: prod.splits sum.splits)

text \<open>Every computation of the class leaves the server as it is.\<close>

lemma io_keepsD: "io_keeps d m \<Longrightarrow> db w = d \<Longrightarrow> m w = (r, w') \<Longrightarrow> db w' = d"
  by (auto simp: io_keeps_def dest!: spec[of _ w])

lemma io_keeps_execute: "io_keeps d (execute self q answer)"
  by (simp add: io_keeps_def execute_def split: handle.splits)

lemma io_keeps_bind: "io_keeps d m \<Longrightarrow> (\<And>x. io_keeps d (f x)) \<Longrightarrow> io_keeps d (io_bind m f)"
  unfolding io_keeps_def io_bind_def
  by (auto split: prod.splits sum.splits)

lemma io_keeps_pure: "io_keeps d (io_return x)" "io_keeps d (io_lift r)"
  by (simp_all add: io_keeps_def io_return_def io_lift_def)

lemma io_keeps_try: "io_keeps d m \<Longrightarrow> io_keeps d (io_try m h)"
  unfolding io_keeps_def io_try_def
  by (auto split: prod.splits sum.splits)

lemma io_keeps_if: "io_keeps d m \<Longrightarrow> io_keeps d n \<Longrightarrow> io_keeps d (if c then m else n)"
  by simp

lemma io_keeps_column_statistics_loop:
  "io_keeps d (column_statistics_loop self table_name cols acc)"
proof (induction cols arbitrary: acc)
  case Nil
  show ?case by (simp add: io_keeps_pure)
next
  case (Cons col cols)
  show ?case
    by (simp add: io_keeps_bind io_keeps_try io_keeps_execute io_keeps_pure Cons.IH)
qed

lemma io_keeps_process_table:
  "io_keeps d (process_table include_samples sample_rows include_statistics self ti)"
  unfolding process_table_def Let_def get_columns_info_def get_primary_keys_def
    get_foreign_keys_def get_indexes_def get_row_count_def get_table_size_def
    get_column_statistics_def get_sample_data_def
  by (intro io_keeps_bind io_keeps_try io_keeps_execute io_keeps_pure io_keeps_if
        io_keeps_column_statistics_loop)

lemma io_keeps_process_tables:
  "io_keeps d (process_tables include_samples sample_rows include_statistics self tis acc)"
proof (induction tis arbitrary: acc)
  case Nil
  show ?case by (simp add: io_keeps_pure)
next
  case (Cons ti tis)
  show ?case by (simp add: io_keeps_bind io_keeps_process_table Cons.IH)
qed

lemma io_keeps_enumeration:
  "io_keeps d (get_tables_info self)"
  "io_keeps d (get_views_info self)"
  "io_keeps d (get_table_relationships self)"
  by (simp_all add: get_tables_info_def get_views_info_def get_table_relationships_def
        io_keeps_bind io_keeps_execute io_keeps_pure)

lemma fresh_extract_build:
  assumes "fst (extract_all_metadata lib include_samples sample_rows include_statistics use_cache self w)
             = Inr (Snapshot s)"
      and "\<not> use_cache \<or> \<not> fst (load_from_cache self w)"
  shows "\<exists>w3. build_metadata lib include_samples sample_rows include_statistics
                 (self\<lparr>cursor := Opened\<rparr>) (w\<lparr>journal := journal w @ [Connect]\<rparr>) = (Inr s, w3)"
proof -
  have miss: "(if use_cache then load_from_cache self w else (False, self)) = (False, self)"
    using assms(2)
    by (auto simp: load_from_cache_def split: if_splits sum.splits)
  show ?thesis
    using assms(1) unfolding extract_all_metadata_def miss
    by (auto simp: connect_def Let_def split: if_splits prod.splits sum.splits)
qed

lemma build_metadata_views_same_server:
  assumes "build_metadata lib include_samples sample_rows include_statistics self w = (Inr s, w')"
  shows "\<exists>vis w1 w2. db w1 = db w
           \<and> process_views include_samples sample_rows self vis [] w1 = (Inr (views s), w2)"
proof -
  from assms obtain tis wa vis wb rels wc tm wd vm we where
    a: "get_tables_info self w = (Inr tis, wa)"
    and b: "get_views_info self wa = (Inr vis, wb)"
    and c: "get_table_relationships self wb = (Inr rels, wc)"
    and d: "process_tables include_samples sample_rows include_statistics self tis [] wc = (Inr tm, wd)"
    and e: "process_views include_samples sample_rows self vis [] wd = (Inr vm, we)"
    and s: "views s = vm"
    unfolding build_metadata_def
    by (auto dest!: io_bind_result simp: io_return_def)
  have "db wa = db w"
    by (rule io_keepsD[OF io_keeps_enumeration(1) refl a])
  moreover have "db wb = db wa"
    by (rule io_keepsD[OF io_keeps_enumeration(2) refl b])
  moreover have "db wc = db wb"
    by (rule io_keepsD[OF io_keeps_enumeration(3) refl c])
  moreover have "db wd = db wc"
    by (rule io_keepsD[OF io_keeps_process_tables refl d])
  ultimately have "db wd = db w" by simp
  with e s show ?thesis by blast
qed

lemma process_view_sample_data_fetched:
  assumes "cursor self = Opened"
      and "process_view True sample_rows self vi w = (Inr vm, w')"
  shows "v_sample_data vm
           = Some (case q_sample (db w) (view_name vi) sample_rows of
                     Inl e \<Rightarrow> [] | Inr rows \<Rightarrow> rows)
         \<and> db w' = db w"
  using assms
  unfolding process_view_def Let_def get_columns_info_def get_sample_data_def
  by (auto simp: io_bind_def io_try_def io_return_def execute_def split: sum.splits)

lemma process_views_sample_data_fetched:
  assumes "cursor self = Opened"
      and "db w = d"
      and "process_views True sample_rows self vis acc w = (Inr res, w')"
      and "\<forall>(n, vm) \<in> set acc.
             v_sample_data vm = Some (case q_sample d n sample_rows of Inl e \<Rightarrow> [] | Inr rows \<Rightarrow> rows)"
  shows "\<forall>(n, vm) \<in> set res.
           v_sample_data vm = Some (case q_sample d n sample_rows of Inl e \<Rightarrow> [] | Inr rows \<Rightarrow> rows)"
  using assms(2-4)
proof (induction vis arbitrary: acc w)
  case Nil
  then show ?case by (simp add: io_return_def)
next
  case (Cons vi vis)
  from Cons.prems(2) obtain vm w1 where
    step: "process_view True sample_rows self vi w = (Inr vm, w1)"
    and rest: "process_views True sample_rows self vis (dict_set acc (view_name vi) vm) w1 = (Inr res, w')"
    by (auto dest!: io_bind_result)
  from process_view_sample_data_fetched[OF assms(1) step] Cons.prems(1)
  have vm: "v_sample_data vm
              = Some (case q_sample d (view_name vi) sample_rows of Inl e \<Rightarrow> [] | Inr rows \<Rightarrow> rows)"
    and w1: "db w1 = d" by simp_all
  have "\<forall>(n, v) \<in> set (dict_set acc (view_name vi) vm).
          v_sample_data v = Some (case q_sample d n sample_rows of Inl e \<Rightarrow> [] | Inr rows \<Rightarrow> rows)"
    using Cons.prems(3) vm dict_set_subset[of acc "view_name vi" vm] by auto
  from Cons.IH[OF w1 rest this] show ?case .
qed

text \<open>
  C10, as the code has it. In the snapshot of a fresh extraction (the cache is not used or
  misses) with \<open>include_samples\<close> true, every view has a \<open>sample_data\<close> key, and under it
  what the sample query of that view with the limit \<open>sample_rows\<close> answers: its rows, or
  the empty list when the query raises. The fetch is not guarded by a row count.
\<close>

theorem fresh_view_sample_data_fetched:
  assumes "fst (extract_all_metadata lib True sample_rows include_statistics use_cache self w)
             = Inr (Snapshot s)"
      and "\<not> use_cache \<or> \<not> fst (load_from_cache self w)"
      and "(name, vm) \<in> set (views s)"
  shows "v_sample_data vm
           = Some (case q_sample (db w) name sample_rows of Inl e \<Rightarrow> [] | Inr rows \<Rightarrow> rows)"
proof -
  from fresh_extract_build[OF assms(1,2)] obtain w3 where
    "build_metadata lib True sample_rows include_statistics (self\<lparr>cursor := Opened\<rparr>)
       (w\<lparr>journal := journal w @ [Connect]\<rparr>) = (Inr s, w3)" by blast
  from build_metadata_views_same_server[OF this] obtain vis w4 w5 where
    "db w4 = db w"
    "process_views True sample_rows (self\<lparr>cursor := Opened\<rparr>) vis [] w4 = (Inr (views s), w5)"
    by auto
  from process_views_sample_data_fetched[OF _ this] assms(3) show ?thesis by auto
qed

theorem fresh_view_sample_data_witness:
  "fst (extract_all_metadata demo_lib True 3 True False demo_self demo_world)
     = Inr (Snapshot demo_snapshot)
   \<and> (''recent'', demo_recent) \<in> set (views demo_snapshot)
   \<and> v_sample_data demo_recent = Some [[(''id'', PyInt 1)]]"
proof -
  have mem: "(''recent'', demo_recent) \<in> set (views demo_snapshot)"
    by (simp add: demo_snapshot_def)
  from fresh_view_sample_data_fetched[OF demo_extraction _ mem] demo_extraction mem
  show ?thesis by (simp add: demo_world_def demo_db_def)
qed

text \<open>
  C10, as stated, fails on a cache hit. A first call with \<open>include_samples\<close> false and
  \<open>use_cache\<close> true writes the cache; a second call with \<open>include_samples\<close> true and
  \<open>use_cache\<close> true returns the cached snapshot, whose view \<open>recent\<close> has no
  \<open>sample_data\<close> key.
\<close>

theorem cached_views_without_sample_data:
  "(case fst (extract_all_metadata demo_lib True 3 True True demo_self
               (snd (snd (extract_all_metadata demo_lib False 3 False True demo_self demo_world)))) of
      Inr (Snapshot s) \<Rightarrow> map (\<lambda>(name, vm). (name, v_sample_data vm)) (views s)
    | _ \<Rightarrow> [])
   = [(''recent'', None)]"
  by code_simp

subsection \<open>Relationships\<close>

lemma filter_no_source:
  "from_table row \<notin> from_table ` set seen \<Longrightarrow> filter (\<lambda>r. from_table r = from_table row) seen = []"
  by (induction seen) auto

lemma grouped_step:
  assumes "grouped rels seen"
  shows "grouped (dict_append rels (from_table row) (edge_of row)) (seen @ [row])"
proof -
  from assms have d: "distinct (map fst rels)"
    and m: "\<And>t. map_of rels t =
               (if t \<in> from_table ` set seen
                then Some (map edge_of (filter (\<lambda>r. from_table r = t) seen)) else None)"
    by (simp_all add: grouped_def)
  have "from_table row \<in> fst ` set rels \<longleftrightarrow> map_of rels (from_table row) \<noteq> None"
    by (simp add: map_of_eq_None_iff)
  then have keys: "from_table row \<in> set (map fst rels) \<longleftrightarrow> from_table row \<in> from_table ` set seen"
    using m[of "from_table row"] by simp
  have "distinct (map fst (dict_append rels (from_table row) (edge_of row)))"
    using d by (simp add: keys_dict_append)
  moreover have "map_of (dict_append rels (from_table row) (edge_of row)) t =
      (if t \<in> from_table ` set (seen @ [row])
       then Some (map edge_of (filter (\<lambda>r. from_table r = t) (seen @ [row]))) else None)" for t
    using m[of t] m[of "from_table row"]
    by (auto simp: map_of_dict_append filter_no_source)
  ultimately show ?thesis by (simp add: grouped_def)
qed

lemma grouped_loop:
  "grouped rels seen \<Longrightarrow> grouped (relationships_loop rels rows) (seen @ rows)"
proof (induction rows arbitrary: rels seen)
  case Nil
  then show ?case by simp
next
  case (Cons row rows)
  from Cons.IH[OF grouped_step[OF Cons.prems, of row]] show ?case by simp
qed

text \<open>
  C8. When the foreign-key query returns \<open>rows\<close>, the dictionary that
  \<open>get_table_relationships\<close> builds has distinct keys, its keys are exactly the source
  tables of \<open>rows\<close>, and the list under a key is never empty: it holds the edge of every
  row of that source table, in the order of \<open>rows\<close>, duplicates kept.
\<close>

theorem relationships_exactly_source_tables:
  assumes "cursor self = Opened"
      and "q_relationships (db w) = Inr rows"
  shows "\<exists>rels. fst (get_table_relationships self w) = Inr rels
           \<and> distinct (map fst rels)
           \<and> set (map fst rels) = set (map from_table rows)
           \<and> (\<forall>(t, es) \<in> set rels.
                 es \<noteq> [] \<and> es = map edge_of (filter (\<lambda>r. from_table r = t) rows))"
proof -
  let ?rels = "relationships_loop [] rows"
  have run: "fst (get_table_relationships self w) = Inr ?rels"
    using assms
    by (simp add: get_table_relationships_def execute_def io_bind_def io_return_def)
  have "grouped [] []" by (simp add: grouped_def)
  from grouped_loop[OF this, of rows] have g: "grouped ?rels rows" by simp
  then have d: "distinct (map fst ?rels)" by (simp add: grouped_def)
  have m: "map_of ?rels t =
             (if t \<in> from_table ` set rows
              then Some (map edge_of (filter (\<lambda>r. from_table r = t) rows)) else None)" for t
    using g by (simp add: grouped_def)
  have keys: "set (map fst ?rels) = set (map from_table rows)"
  proof -
    have "t \<in> fst ` set ?rels \<longleftrightarrow> map_of ?rels t \<noteq> None" for t
      by (simp add: map_of_eq_None_iff)
    then have "t \<in> fst ` set ?rels \<longleftrightarrow> t \<in> from_table ` set rows" for t
      using m[of t] by simp
    then show ?thesis by auto
  qed
  have edges: "es \<noteq> [] \<and> es = map edge_of (filter (\<lambda>r. from_table r = t) rows)"
    if "(t, es) \<in> set ?rels" for t es
  proof -
    from that d have "map_of ?rels t = Some es" by simp
    with m[of t] have "t \<in> from_table ` set rows"
      and es: "es = map edge_of (filter (\<lambda>r. from_table r = t) rows)"
      by (auto split: if_splits)
    then have "filter (\<lambda>r. from_table r = t) rows \<noteq> []"
      by (auto simp: filter_empty_conv)
    with es show ?thesis by simp
  qed
  from run d keys edges show ?thesis by blast
qed

theorem relationships_witness:
  "cursor connected_self = Opened
   \<and> q_relationships (db demo_world) = Inr [orders_rel]
   \<and> (\<exists>rels. fst (get_table_relationships connected_self demo_world) = Inr rels
         \<and> distinct (map fst rels)
         \<and> set (map fst rels) = set (map from_table [orders_rel])
         \<and> (\<forall>(t, es) \<in> set rels.
               es \<noteq> [] \<and> es = map edge_of (filter (\<lambda>r. from_table r = t) [orders_rel])))"
proof -
  have c: "cursor connected_self = Opened"
    by (simp add: connected_self_def)
  have q: "q_relationships (db demo_world) = Inr [orders_rel]"
    by (simp add: demo_world_def demo_db_def)
  from relationships_exactly_source_tables[OF c q] c q show ?thesis by blast
qed

subsection \<open>Column statistics\<close>

lemma column_stats_of_no_rows:
  "total_rows r = 0 \<Longrightarrow>
     column_stats_of r = Inr (Stats (- non_null_count r) PyZero (sr_distinct_count r) PyZero)"
  by (simp add: column_stats_of_def Let_def)

lemma column_stats_of_never_divides_by_zero: "column_stats_of r \<noteq> Inl e"
  by (auto simp: column_stats_of_def Let_def py_pct_def)

lemma column_statistics_loop_entry:
  assumes "cursor self = Opened"
      and "q_column_stats (db w) table_name c = Inr r"
      and "total_rows r = 0"
  shows "\<exists>stats w'. column_statistics_loop self table_name cols acc w = (Inr stats, w')
           \<and> map_of stats c =
               (if c \<in> column_name ` set cols
                then Some (Stats (- non_null_count r) PyZero (sr_distinct_count r) PyZero)
                else map_of acc c)"
  using assms(2)
proof (induction cols arbitrary: acc w)
  case Nil
  then show ?case by (simp add: io_return_def)
next
  case (Cons col cols)
  let ?w1 = "w\<lparr>journal := journal w @ [Execute (QColumnStats table_name (column_name col))]\<rparr>"
  define entry where
    "entry = (case q_column_stats (db w) table_name (column_name col) of
                Inl e \<Rightarrow> StatsError e
              | Inr x \<Rightarrow> (case column_stats_of x of Inl e \<Rightarrow> StatsError e | Inr st \<Rightarrow> st))"
  have step: "io_try
             (io_bind
                (execute self (QColumnStats table_name (column_name col))
                   (\<lambda>d. q_column_stats d table_name (column_name col)))
                (\<lambda>result. io_lift (column_stats_of result)))
             StatsError w = (Inr entry, ?w1)"
    using assms(1)
    by (simp add: entry_def io_try_def io_bind_def io_lift_def execute_def split: sum.splits)
  have entry: "column_name col = c \<longrightarrow>
                  entry = Stats (- non_null_count r) PyZero (sr_distinct_count r) PyZero"
    using assms(3) Cons.prems by (simp add: entry_def column_stats_of_no_rows)
  have "q_column_stats (db ?w1) table_name c = Inr r"
    using Cons.prems by simp
  from Cons.IH[OF this, of "dict_set acc (column_name col) entry"] obtain stats w' where
    rest: "column_statistics_loop self table_name cols (dict_set acc (column_name col) entry) ?w1
             = (Inr stats, w')"
    and look: "map_of stats c =
                 (if c \<in> column_name ` set cols
                  then Some (Stats (- non_null_count r) PyZero (sr_distinct_count r) PyZero)
                  else map_of (dict_set acc (column_name col) entry) c)"
    by blast
  have "column_statistics_loop self table_name (col # cols) acc w = (Inr stats, w')"
    using step rest by (simp add: io_bind_def)
  moreover have "map_of stats c =
      (if c \<in> column_name ` set (col # cols)
       then Some (Stats (- non_null_count r) PyZero (sr_distinct_count r) PyZero)
       else map_of acc c)"
    using look entry by (auto simp: map_of_dict_set)
  ultimately show ?case by blast
qed

text \<open>
  C9. When the statistics query of a column counts no rows, \<open>get_column_statistics\<close>
  stores for it both percentages as 0 (with the null count and the distinct count of the
  row); it does not store the \<open>error\<close> entry that a \<open>ZeroDivisionError\<close> would give.
\<close>

theorem percentages_zero_without_rows:
  assumes "cursor self = Opened"
      and "q_columns (db w) table_name = Inr cols"
      and "col \<in> set cols"
      and "q_column_stats (db w) table_name (column_name col) = Inr r"
      and "total_rows r = 0"
  shows "\<exists>stats. fst (get_column_statistics self table_name w) = Inr stats
           \<and> map_of stats (column_name col)
               = Some (Stats (- non_null_count r) PyZero (sr_distinct_count r) PyZero)"
proof -
  let ?w1 = "w\<lparr>journal := journal w @ [Execute (QColumns table_name)]\<rparr>"
  have cols: "get_columns_info self table_name w = (Inr cols, ?w1)"
    using assms(1,2) by (simp add: get_columns_info_def execute_def)
  have "q_column_stats (db ?w1) table_name (column_name col) = Inr r"
    using assms(4) by simp
  from column_statistics_loop_entry[OF assms(1) this assms(5), of cols "[]"] assms(3)
  obtain stats w' where
    "column_statistics_loop self table_name cols [] ?w1 = (Inr stats, w')"
    "map_of stats (column_name col)
       = Some (Stats (- non_null_count r) PyZero (sr_distinct_count r) PyZero)"
    by auto
  with cols show ?thesis
    by (simp add: get_column_statistics_def io_bind_def)
qed

theorem percentages_witness:
  "cursor connected_self = Opened
   \<and> q_columns (db demo_world) ''orders'' = Inr [id_column, user_id_column]
   \<and> user_id_column \<in> set [id_column, user_id_column]
   \<and> (\<exists>stats. fst (get_column_statistics connected_self ''orders''
                      (demo_world\<lparr>db := demo_db\<lparr>q_column_stats :=
                         (\<lambda>t c. Inr \<lparr>total_rows = 0, non_null_count = 0, sr_distinct_count = 0\<rparr>)\<rparr>\<rparr>))
                  = Inr stats
         \<and> map_of stats ''user_id'' = Some (Stats 0 PyZero 0 PyZero))"
proof -
  let ?w = "demo_world\<lparr>db := demo_db\<lparr>q_column_stats :=
              (\<lambda>t c. Inr \<lparr>total_rows = 0, non_null_count = 0, sr_distinct_count = 0\<rparr>)\<rparr>\<rparr>"
  let ?r = "\<lparr>total_rows = 0, non_null_count = 0, sr_distinct_count = 0\<rparr>"
  have c: "cursor connected_self = Opened"
    by (simp add: connected_self_def)
  have q: "q_columns (db ?w) ''orders'' = Inr [id_column, user_id_column]"
    by (simp add: demo_db_def)
  have q': "q_columns (db demo_world) ''orders'' = Inr [id_column, user_id_column]"
    by (simp add: demo_db_def demo_world_def)
  have m: "user_id_column \<in> set [id_column, user_id_column]"
    by simp
  have s: "q_column_stats (db ?w) ''orders'' (column_name user_id_column) = Inr ?r"
    by simp
  have z: "total_rows ?r = 0"
    by simp
  from percentages_zero_without_rows[OF c q m s z] c q' m show ?thesis
    by (simp add: user_id_column_def)
qed

subsection \<open>Probing failures\<close>

text \<open>
  Each lookup that is wrapped in a \<open>try\<close> returns a value whatever its query does;
  \<open>get_foreign_keys\<close> is not wrapped and hands on what its query raises.
\<close>

lemma get_primary_keys_recovers: "\<exists>keys w'. get_primary_keys self table_name w = (Inr keys, w')"
  by (auto simp: get_primary_keys_def io_try_def split: prod.splits sum.splits)

lemma get_indexes_recovers: "\<exists>idxs w'. get_indexes self table_name w = (Inr idxs, w')"
  by (auto simp: get_indexes_def io_try_def split: prod.splits sum.splits)

lemma get_row_count_recovers: "\<exists>n w'. get_row_count self table_name w = (Inr n, w')"
  by (auto simp: get_row_count_def io_try_def split: prod.splits sum.splits)

lemma get_table_size_recovers: "\<exists>sz w'. get_table_size self table_name w = (Inr sz, w')"
  by (auto simp: get_table_size_def io_try_def split: prod.splits sum.splits)

lemma column_statistics_loop_recovers:
  "\<exists>stats w'. column_statistics_loop self table_name cols acc w = (Inr stats, w')"
proof (induction cols arbitrary: acc w)
  case Nil
  show ?case by (simp add: io_return_def)
next
  case (Cons col cols)
  let ?m = "io_bind
              (execute self (QColumnStats table_name (column_name col))
                 (\<lambda>d. q_column_stats d table_name (column_name col)))
              (\<lambda>result. io_lift (column_stats_of result))"
  from io_try_total[of ?m StatsError w] obtain entry w1 where
    "io_try ?m StatsError w = (Inr entry, w1)" by blast
  with Cons.IH[of "dict_set acc (column_name col) entry" w1] show ?case
    by (simp add: io_bind_def)
qed

lemma get_foreign_keys_raises:
  "cursor self = Opened \<Longrightarrow> q_foreign_keys (db w) table_name = Inl e
     \<Longrightarrow> fst (get_foreign_keys self table_name w) = Inl e"
  by (simp add: get_foreign_keys_def execute_def)

text \<open>
  C2. On the example server whose foreign-key query of \<open>orders\<close> raises, the exception
  leaves \<open>extract_all_metadata\<close>: no snapshot is returned, and the journal shows that the
  table \<open>users\<close> and the view \<open>recent\<close> are never probed.
\<close>

theorem foreign_key_error_aborts_extraction:
  "fst (extract_all_metadata demo_lib True 3 True False demo_self fk_broken_world)
     = Inl (DatabaseError ''statement timeout'')
   \<and> journal (snd (snd (extract_all_metadata demo_lib True 3 True False demo_self fk_broken_world)))
     = [Connect, Execute QTables, Execute QViews, Execute QRelationships,
        Execute (QColumns ''orders''), Execute (QPrimaryKeys ''orders''),
        Execute (QForeignKeys ''orders'')]"
  by code_simp

subsection \<open>Formatting\<close>

text \<open>
  After a fresh extraction that returned a snapshot the cursor is closed, and
  \<open>format_for_ai\<close>, which runs the foreign-key query again through
  \<open>generate_relationship_diagram\<close>, raises.
\<close>

lemma format_for_ai_after_extraction:
  assumes "fst (extract_all_metadata lib include_samples sample_rows include_statistics use_cache self w)
             = Inr (Snapshot s)"
      and "\<not> use_cache \<or> \<not> fst (load_from_cache self w)"
  shows "fst (format_for_ai lib
           (fst (snd (extract_all_metadata lib include_samples sample_rows include_statistics
                        use_cache self w))) w')
          = Inl InterfaceError"
proof -
  have miss: "(if use_cache then load_from_cache self w else (False, self)) = (False, self)"
    using assms(2)
    by (auto simp: load_from_cache_def split: if_splits sum.splits)
  show ?thesis
    using assms(1) unfolding extract_all_metadata_def miss
    by (auto simp: connect_def Let_def close_def format_for_ai_def generate_relationship_diagram_def
          get_table_relationships_def execute_def io_bind_def
          split: if_splits prod.splits sum.splits)
qed

text \<open>
  After a cache hit on an object that \<open>__init__\<close> has just built there is no cursor at
  all, and \<open>format_for_ai\<close> raises as well.
\<close>

lemma format_for_ai_after_cache_hit:
  assumes "fs w path = Pickled cd"
      and "now w - cached_at cd \<le> 3600000000"
      and "cd_metadata cd = Snapshot s"
  shows "fst (format_for_ai lib
           (fst (snd (extract_all_metadata lib include_samples sample_rows include_statistics
                        True (init params path) w))) w')
          = Inl AttributeError"
  using assms
  by (simp add: extract_all_metadata_def load_from_cache_def read_cache_def init_def
        format_for_ai_def generate_relationship_diagram_def get_table_relationships_def
        execute_def io_bind_def)

text \<open>
  C1. \<open>format_for_ai\<close> is not a function of the snapshot alone. On one and the same
  object, with the same snapshot and an open cursor, two servers with different foreign keys
  give two different texts; the call issues the query \<open>QRelationships\<close>; and called on the
  object that \<open>extract_all_metadata\<close> has just left, it raises \<open>InterfaceError\<close>.
\<close>

theorem format_for_ai_reads_database:
  "fst (format_for_ai demo_lib connected_self demo_world)
     \<noteq> fst (format_for_ai demo_lib connected_self
              (demo_world\<lparr>db := demo_db\<lparr>q_relationships := Inr []\<rparr>\<rparr>))
   \<and> journal (snd (format_for_ai demo_lib connected_self demo_world)) = [Execute QRelationships]
   \<and> fst (format_for_ai demo_lib
            (fst (snd (extract_all_metadata demo_lib True 3 True False demo_self demo_world)))
            (snd (snd (extract_all_metadata demo_lib True 3 True False demo_self demo_world))))
       = Inl InterfaceError"
  by code_simp

end
